theory Spec2Isabelle
  imports Complex_Main
begin

section \<open>JavaScript values and numbers\<close>

text \<open>
  The classification engine of the map (\<open>utils/naturalBreaks\<close> and the colour functions of
  \<open>utils/iconLayer\<close>) works on JavaScript numbers, \<open>null\<close> and \<open>undefined\<close>.
  A number is modelled as \<open>NaN\<close>, one of the two infinities, or an exact real: the
  arithmetic below follows IEEE 754 on the special values and is exact on the finite ones.
  Rounding and overflow of doubles are therefore outside the model: every property below
  that speaks of finite numbers is a property of the computation in exact arithmetic. There
  is a single zero (the only division whose divisor can be zero divides by
  \<open>numClasses - 1\<close>, which is \<open>+0\<close>).
\<close>

datatype jsnum = NaN | PosInf | NegInf | Fin real

datatype jsval = Null | Undefined | Number jsnum

datatype error = TypeError

fun js_neg :: "jsnum \<Rightarrow> jsnum" where
  "js_neg NaN = NaN"
| "js_neg PosInf = NegInf"
| "js_neg NegInf = PosInf"
| "js_neg (Fin x) = Fin (- x)"

fun js_add :: "jsnum \<Rightarrow> jsnum \<Rightarrow> jsnum" where
  "js_add NaN b = NaN"
| "js_add a NaN = NaN"
| "js_add PosInf NegInf = NaN"
| "js_add NegInf PosInf = NaN"
| "js_add PosInf b = PosInf"
| "js_add NegInf b = NegInf"
| "js_add (Fin x) PosInf = PosInf"
| "js_add (Fin x) NegInf = NegInf"
| "js_add (Fin x) (Fin y) = Fin (x + y)"

definition js_sub :: "jsnum \<Rightarrow> jsnum \<Rightarrow> jsnum" where
  "js_sub a b = js_add a (js_neg b)"

text \<open>The sign of a number that is not \<open>NaN\<close>: \<open>-1\<close>, \<open>0\<close> or \<open>1\<close>.\<close>

fun js_sign :: "jsnum \<Rightarrow> int" where
  "js_sign NaN = 0"
| "js_sign PosInf = 1"
| "js_sign NegInf = - 1"
| "js_sign (Fin x) = (if x < 0 then - 1 else if x = 0 then 0 else 1)"

fun js_mul :: "jsnum \<Rightarrow> jsnum \<Rightarrow> jsnum" where
  "js_mul NaN b = NaN"
| "js_mul a NaN = NaN"
| "js_mul (Fin x) (Fin y) = Fin (x * y)"
| "js_mul a b =
     (if js_sign a * js_sign b = 0 then NaN
      else if js_sign a * js_sign b > 0 then PosInf else NegInf)"

fun js_div :: "jsnum \<Rightarrow> jsnum \<Rightarrow> jsnum" where
  "js_div NaN b = NaN"
| "js_div a NaN = NaN"
| "js_div (Fin x) (Fin y) =
     (if y = 0 then (if x = 0 then NaN else if x > 0 then PosInf else NegInf)
      else Fin (x / y))"
| "js_div (Fin x) b = Fin 0"
| "js_div PosInf (Fin y) = (if y < 0 then NegInf else PosInf)"
| "js_div NegInf (Fin y) = (if y < 0 then PosInf else NegInf)"
| "js_div a b = NaN"

text \<open>\<open>Math.floor\<close> and \<open>Math.pow(x, 2)\<close>.\<close>

fun js_floor :: "jsnum \<Rightarrow> jsnum" where
  "js_floor (Fin x) = Fin (of_int \<lfloor>x\<rfloor>)"
| "js_floor a = a"

fun js_pow2 :: "jsnum \<Rightarrow> jsnum" where
  "js_pow2 NaN = NaN"
| "js_pow2 (Fin x) = Fin (x ^ 2)"
| "js_pow2 a = PosInf"

text \<open>The comparisons \<open><\<close> and \<open>>=\<close> on numbers: false as soon as one side is \<open>NaN\<close>.\<close>

fun js_lt :: "jsnum \<Rightarrow> jsnum \<Rightarrow> bool" where
  "js_lt NaN b = False"
| "js_lt a NaN = False"
| "js_lt PosInf b = False"
| "js_lt a PosInf = True"
| "js_lt NegInf NegInf = False"
| "js_lt NegInf b = True"
| "js_lt (Fin x) NegInf = False"
| "js_lt (Fin x) (Fin y) = (x < y)"

fun js_ge :: "jsnum \<Rightarrow> jsnum \<Rightarrow> bool" where
  "js_ge NaN b = False"
| "js_ge a NaN = False"
| "js_ge a b = (\<not> js_lt a b)"

text \<open>
  \<open>ToNumber\<close> as the comparison operators and \<open>Number(...)\<close> apply it, and the global
  \<open>isNaN\<close>, which converts its argument first: \<open>isNaN(undefined)\<close> is true and
  \<open>isNaN(null)\<close> is false.
\<close>

fun toNumber :: "jsval \<Rightarrow> jsnum" where
  "toNumber Null = Fin 0"
| "toNumber Undefined = NaN"
| "toNumber (Number a) = a"

definition isNaN :: "jsval \<Rightarrow> bool" where
  "isNaN v = (toNumber v = NaN)"

text \<open>
  Reading an array at an index: \<open>undefined\<close> out of range. Storing at an index beyond the
  end extends the array; the slots skipped are holes, which read as \<open>undefined\<close>.
\<close>

definition js_at :: "jsnum list \<Rightarrow> int \<Rightarrow> jsval" where
  "js_at xs i = (if 0 \<le> i \<and> i < int (length xs) then Number (xs ! nat i) else Undefined)"

definition js_store :: "jsval list \<Rightarrow> nat \<Rightarrow> jsval \<Rightarrow> jsval list" where
  "js_store a i v =
     (if i < length a then a[i := v] else a @ replicate (i - length a) Undefined @ [v])"

section \<open>Class Assigner: \<open>getClassIndex\<close>\<close>

text \<open>
  \<^verbatim>\<open>
  for (let i = 0; i < breaks.length - 1; i++) {
    if (value >= breaks[i] && value < breaks[i + 1]) return i;
  }
  if (value >= breaks[breaks.length - 2]) return breaks.length - 2;
  return -1;
  \<close>
  The loop returns at the first index that matches, which is \<open>find\<close> over the indices
  \<open>0 .. breaks.length - 2\<close> (none when the array has fewer than two entries). The read
  after the loop is at index \<open>-2\<close> or \<open>-1\<close> for a short array, hence \<open>undefined\<close>, and the
  comparison with it is false.
\<close>

definition inClass :: "jsnum \<Rightarrow> jsnum list \<Rightarrow> nat \<Rightarrow> bool" where
  "inClass v breaks i = (js_ge v (breaks ! i) \<and> js_lt v (breaks ! (i + 1)))"

definition getClassIndex :: "jsval \<Rightarrow> jsnum list \<Rightarrow> int" where
  "getClassIndex val breaks =
     (if val = Null \<or> val = Undefined \<or> isNaN val then - 1
      else case find (inClass (toNumber val) breaks) [0..<length breaks - 1] of
             Some i \<Rightarrow> int i
           | None \<Rightarrow>
               if js_ge (toNumber val) (toNumber (js_at breaks (int (length breaks) - 2)))
               then int (length breaks) - 2
               else - 1)"

section \<open>Colour Resolver and Palette Generator\<close>

type_synonym rgb = "jsnum \<times> jsnum \<times> jsnum"

definition gray :: rgb where
  "gray = (Fin 128, Fin 128, Fin 128)"

text \<open>
  \<open>getICIOColor\<close>. The index read from \<open>colors\<close> is neither \<open>-1\<close> nor beyond the end;
  \<open>getClassIndex\<close> returns nothing below \<open>-1\<close> (lemma \<open>getClassIndex_lower\<close>), so the read
  is in range.
\<close>

definition getICIOColor :: "jsval \<Rightarrow> jsnum list \<Rightarrow> rgb list \<Rightarrow> rgb" where
  "getICIOColor icio breaks colors =
     (if icio = Null \<or> isNaN icio \<or> length breaks < 2 then gray
      else let classIndex = getClassIndex icio breaks in
        if classIndex = - 1 \<or> classIndex \<ge> int (length colors) then gray
        else colors ! nat classIndex)"

text \<open>
  The body of the loop of \<open>generateColorPalette\<close> at index \<open>i\<close>, and the loop, which pushes
  one colour for each \<open>i\<close> from \<open>0\<close> to \<open>numClasses - 1\<close>. (With doubles a product can fall
  just below the integer that exact arithmetic gives, and \<open>Math.floor\<close> then returns one
  less; the order of the channels does not depend on it.)
\<close>

definition paletteColor :: "nat \<Rightarrow> nat \<Rightarrow> rgb" where
  "paletteColor numClasses i =
     (let ratio = js_div (Fin (real i)) (js_sub (Fin (real numClasses)) (Fin 1)) in
      if js_lt ratio (Fin (1 / 2)) then
        (let localRatio = js_mul ratio (Fin 2) in
         (js_floor (js_mul localRatio (Fin 204)), Fin 200, Fin 0))
      else
        (let localRatio = js_mul (js_sub ratio (Fin (1 / 2))) (Fin 2) in
         (js_add (Fin 204) (js_floor (js_mul localRatio (Fin 51))),
          js_sub (Fin 200) (js_floor (js_mul localRatio (Fin 200))),
          Fin 0)))"

definition generateColorPalette :: "nat \<Rightarrow> rgb list" where
  "generateColorPalette numClasses = map (paletteColor numClasses) [0..<numClasses]"

section \<open>Breaks Solver: \<open>jenksBreaks\<close>\<close>

subsection \<open>Cleaning, sorting, unique values\<close>

definition cleanData :: "jsval list \<Rightarrow> jsnum list" where
  "cleanData data =
     map toNumber (filter (\<lambda>d. d \<noteq> Null \<and> d \<noteq> Undefined \<and> \<not> isNaN d) data)"

text \<open>
  \<open>[...cleanData].sort((a, b) => a - b)\<close>: \<open>a\<close> goes after \<open>b\<close> when \<open>a - b > 0\<close>; a
  comparator result of \<open>NaN\<close> (the difference of two equal infinities) counts as \<open>0\<close>. On
  numbers other than \<open>NaN\<close> this comparator is a consistent total order, so the result of
  the sort is the stable sort, written here as insertion from the right.
\<close>

definition sortsAfter :: "jsnum \<Rightarrow> jsnum \<Rightarrow> bool" where
  "sortsAfter a b = js_lt (Fin 0) (js_sub a b)"

fun js_insert :: "jsnum \<Rightarrow> jsnum list \<Rightarrow> jsnum list" where
  "js_insert a [] = [a]"
| "js_insert a (b # bs) = (if sortsAfter a b then b # js_insert a bs else a # b # bs)"

definition js_sort :: "jsnum list \<Rightarrow> jsnum list" where
  "js_sort xs = foldr js_insert xs []"

text \<open>\<open>[...new Set(sorted)]\<close>: the values in order of first insertion.\<close>

definition setValues :: "'a list \<Rightarrow> 'a list" where
  "setValues xs = fold (\<lambda>x seen. if x \<in> set seen then seen else seen @ [x]) xs []"

subsection \<open>Variance within a class\<close>

text \<open>
  \<open>varianceWithin(data, start, end)\<close>: \<open>0\<close> when \<open>start >= end\<close>, otherwise the sum of the
  squared deviations from the mean of \<open>data.slice(start, end + 1)\<close>.
\<close>

definition varianceWithin :: "jsnum list \<Rightarrow> nat \<Rightarrow> nat \<Rightarrow> jsnum" where
  "varianceWithin data start end =
     (if start \<ge> end then Fin 0
      else
        let subset = take (end + 1 - start) (drop start data);
            mean = js_div (foldl js_add (Fin 0) subset) (Fin (real (length subset)))
        in foldl (\<lambda>sum val. js_add sum (js_pow2 (js_sub val mean))) (Fin 0) subset)"

subsection \<open>The two matrices and the dynamic program\<close>

record matrices =
  lowerClassLimits :: "int list list"
  varianceCombinations :: "jsnum list list"

definition get2 :: "'a list list \<Rightarrow> nat \<Rightarrow> nat \<Rightarrow> 'a" where
  "get2 m r c = m ! r ! c"

definition set2 :: "'a list list \<Rightarrow> nat \<Rightarrow> nat \<Rightarrow> 'a \<Rightarrow> 'a list list" where
  "set2 m r c v = m[r := (m ! r)[c := v]]"

text \<open>Both matrices have \<open>dataLength + 1\<close> rows of \<open>nClasses + 1\<close> zeros.\<close>

definition initMatrices :: "nat \<Rightarrow> nat \<Rightarrow> matrices" where
  "initMatrices dataLength nClasses =
     \<lparr> lowerClassLimits = replicate (dataLength + 1) (replicate (nClasses + 1) 0),
       varianceCombinations = replicate (dataLength + 1) (replicate (nClasses + 1) (Fin 0)) \<rparr>"

text \<open>
  The innermost loop body, for one split index \<open>k\<close>:
  \<^verbatim>\<open>
  variance = varianceCombinations[k - 1][i - 1] + varianceWithin(sorted, k - 1, j - 1);
  if (variance < varianceCombinations[j][i]) {
    lowerClassLimits[j][i] = k;
    varianceCombinations[j][i] = variance;
  }
  \<close>
\<close>

definition splitStep :: "jsnum list \<Rightarrow> nat \<Rightarrow> nat \<Rightarrow> nat \<Rightarrow> matrices \<Rightarrow> matrices" where
  "splitStep sortedData i j k m =
     (let variance = js_add (get2 (varianceCombinations m) (k - 1) (i - 1))
                            (varianceWithin sortedData (k - 1) (j - 1))
      in if js_lt variance (get2 (varianceCombinations m) j i)
         then m \<lparr> lowerClassLimits := set2 (lowerClassLimits m) j i (int k),
                  varianceCombinations := set2 (varianceCombinations m) j i variance \<rparr>
         else m)"

text \<open>The body of the loop over the prefix length \<open>j\<close>, from \<open>2\<close> to \<open>dataLength\<close>.\<close>

definition prefixStep :: "jsnum list \<Rightarrow> nat \<Rightarrow> nat \<Rightarrow> matrices \<Rightarrow> matrices" where
  "prefixStep sortedData i j m =
     (if i = 1 then
        m \<lparr> varianceCombinations :=
              set2 (varianceCombinations m) j 1 (varianceWithin sortedData 0 (j - 1)),
            lowerClassLimits := set2 (lowerClassLimits m) j 1 1 \<rparr>
      else
        fold (splitStep sortedData i j) [i..<j + 1]
          (m \<lparr> varianceCombinations := set2 (varianceCombinations m) j i PosInf \<rparr>))"

text \<open>The body of the loop over the class count \<open>i\<close>, from \<open>1\<close> to \<open>nClasses\<close>.\<close>

definition classStep :: "jsnum list \<Rightarrow> nat \<Rightarrow> matrices \<Rightarrow> matrices" where
  "classStep sortedData i m =
     fold (prefixStep sortedData i) [2..<length sortedData + 1]
       (m \<lparr> lowerClassLimits := set2 (lowerClassLimits m) 1 i 1,
            varianceCombinations := set2 (varianceCombinations m) 1 i (Fin 0) \<rparr>)"

definition fillMatrices :: "jsnum list \<Rightarrow> nat \<Rightarrow> matrices" where
  "fillMatrices sortedData nClasses =
     fold (classStep sortedData) [1..<nClasses + 1] (initMatrices (length sortedData) nClasses)"

subsection \<open>Extracting the breaks\<close>

text \<open>
  \<^verbatim>\<open>
  let k = dataLength;
  for (let j = nClasses; j >= 1; j--) {
    breaks[j - 1] = sorted[lowerClassLimits[k][j] - 1];
    k = lowerClassLimits[k][j] - 1;
  }
  \<close>
  \<open>lowerClassLimits[k]\<close> is \<open>undefined\<close> when \<open>k\<close> is not a row of the matrix, and reading
  \<open>[j]\<close> from it throws a \<open>TypeError\<close>. Column \<open>j\<close> exists in every row.
\<close>

definition rowAt :: "'a list list \<Rightarrow> int \<Rightarrow> 'a list option" where
  "rowAt m k = (if 0 \<le> k \<and> k < int (length m) then Some (m ! nat k) else None)"

fun extractLoop ::
  "int list list \<Rightarrow> jsnum list \<Rightarrow> nat \<Rightarrow> int \<Rightarrow> jsval list \<Rightarrow> error + jsval list" where
  "extractLoop L sortedData 0 k breaks = Inr breaks"
| "extractLoop L sortedData (Suc j) k breaks =
     (case rowAt L k of
        None \<Rightarrow> Inl TypeError
      | Some row \<Rightarrow>
          extractLoop L sortedData j (row ! Suc j - 1)
            (js_store breaks j (js_at sortedData (row ! Suc j - 1))))"

text \<open>
  \<open>breaks.filter((v, i, a) => a.indexOf(v) === i)\<close>. \<open>indexOf\<close> compares with \<open>===\<close>, under
  which \<open>NaN\<close> equals nothing. Every slot of \<open>breaks\<close> has been written when the filter
  runs, so there is no hole for it to skip.
\<close>

definition strictEq :: "jsval \<Rightarrow> jsval \<Rightarrow> bool" where
  "strictEq a b = (a = b \<and> a \<noteq> Number NaN)"

definition indexOf :: "jsval list \<Rightarrow> jsval \<Rightarrow> int" where
  "indexOf a v =
     (case find (\<lambda>i. strictEq (a ! i) v) [0..<length a] of
        None \<Rightarrow> - 1
      | Some i \<Rightarrow> int i)"

definition removeDuplicates :: "jsval list \<Rightarrow> jsval list" where
  "removeDuplicates a =
     map fst (filter (\<lambda>(v, i). indexOf a v = int i) (zip a [0..<length a]))"

subsection \<open>\<open>jenksBreaks\<close>\<close>

definition jenksBreaks :: "jsval list \<Rightarrow> nat \<Rightarrow> error + jsval list" where
  "jenksBreaks data nClasses =
     (if length data = 0 then Inr []
      else
        let cleaned = cleanData data in
        if length cleaned = 0 then Inr []
        else
          let sortedData = js_sort cleaned in
          if length sortedData \<le> nClasses then Inr (map Number (setValues sortedData))
          else
            let dataLength = length sortedData;
                m = fillMatrices sortedData nClasses
            in case extractLoop (lowerClassLimits m) sortedData nClasses (int dataLength) [] of
                 Inl e \<Rightarrow> Inl e
               | Inr breaks \<Rightarrow>
                   Inr (removeDuplicates
                         (js_store (js_store breaks 0 (js_at sortedData 0))
                            nClasses (js_at sortedData (int dataLength - 1)))))"

section \<open>Definitions used to state the properties\<close>




text \<open>The entries that \<open>jenksBreaks\<close> filters out.\<close>

definition invalidEntry :: "jsval \<Rightarrow> bool" where
  "invalidEntry d = (d = Null \<or> d = Undefined \<or> d = Number NaN)"



text \<open>
  The elements \<open>start .. end\<close> of a list (what \<open>slice(start, end + 1)\<close> returns), the sum of
  the squared deviations from the mean, and the variance of a segment of a finite sample as
  \<open>varianceWithin\<close> computes it.
\<close>

definition segment :: "'a list \<Rightarrow> nat \<Rightarrow> nat \<Rightarrow> 'a list" where
  "segment xs start end = take (end + 1 - start) (drop start xs)"

definition ssd :: "real list \<Rightarrow> real" where
  "ssd ys = (\<Sum>y\<leftarrow>ys. (y - sum_list ys / real (length ys)) ^ 2)"

definition variance :: "real list \<Rightarrow> nat \<Rightarrow> nat \<Rightarrow> real" where
  "variance xs start end = (if start \<ge> end then 0 else ssd (segment xs start end))"










section \<open>Comparisons with \<open>NaN\<close>\<close>

lemma js_ge_NaN [simp]: "js_ge a NaN = False"
  by (cases a) simp_all

lemma js_lt_NaN [simp]: "js_lt a NaN = False"
  by (cases a) simp_all

section \<open>Properties of the Class Assigner, the Colour Resolver and the Palette Generator\<close>

lemma getClassIndex_Fin:
  "getClassIndex (Number (Fin v)) (map Fin bs) =
     (case find (\<lambda>i. bs ! i \<le> v \<and> v < bs ! (i + 1)) [0..<length bs - 1] of
        Some i \<Rightarrow> int i
      | None \<Rightarrow> if 2 \<le> length bs \<and> bs ! (length bs - 2) \<le> v then int (length bs) - 2 else - 1)"
proof -
  have "find (inClass (Fin v) (map Fin bs)) [0..<length bs - 1]
      = find (\<lambda>i. bs ! i \<le> v \<and> v < bs ! (i + 1)) [0..<length bs - 1]"
    by (rule find_cong) (auto simp: inClass_def)
  moreover have "js_ge (Fin v) (toNumber (js_at (map Fin bs) (int (length bs) - 2)))
      = (2 \<le> length bs \<and> bs ! (length bs - 2) \<le> v)"
    by (auto simp: js_at_def nat_diff_distrib')
  ultimately show ?thesis
    by (simp add: getClassIndex_def isNaN_def split: option.splits)
qed

lemma getClassIndex_lower: "- 1 \<le> getClassIndex val breaks"
  by (auto simp: getClassIndex_def js_at_def split: option.splits)

lemma getClassIndex_upper: "2 \<le> length breaks \<Longrightarrow> getClassIndex val breaks \<le> int (length breaks) - 2"
  by (auto simp: getClassIndex_def find_Some_iff split: option.splits)

lemma getClassIndex_short: "length breaks < 2 \<Longrightarrow> getClassIndex val breaks = - 1"
  by (auto simp: getClassIndex_def js_at_def find_Some_iff split: option.splits)

lemma getClassIndex_below:
  assumes "sorted bs" "bs \<noteq> []" "v < hd bs"
  shows "getClassIndex (Number (Fin v)) (map Fin bs) = - 1"
proof -
  have lo: "v < bs ! i" if "i < length bs" for i
  proof -
    have "hd bs \<le> bs ! i" using assms(1,2) that
      by (metis hd_conv_nth le0 sorted_nth_mono)
    with assms(3) show ?thesis by simp
  qed
  have "find (\<lambda>i. bs ! i \<le> v \<and> v < bs ! (i + 1)) [0..<length bs - 1] = None"
    using lo by (auto simp: find_None_iff not_le)
  moreover have "\<not> (2 \<le> length bs \<and> bs ! (length bs - 2) \<le> v)"
  proof
    assume a: "2 \<le> length bs \<and> bs ! (length bs - 2) \<le> v"
    then have "length bs - 2 < length bs" by arith
    from lo[OF this] a show False by simp
  qed
  ultimately show ?thesis by (simp add: getClassIndex_Fin)
qed

lemma no_class_above:
  assumes "find (\<lambda>i. bs ! i \<le> v \<and> v < bs ! (i + 1)) [0..<length bs - 1] = None"
    and "bs ! 0 \<le> v" "i < length bs"
  shows "bs ! i \<le> (v::real)"
  using assms(3)
proof (induction i)
  case 0
  then show ?case using assms(2) by simp
next
  case (Suc i)
  then have "bs ! i \<le> v" by simp
  moreover have "\<not> (bs ! i \<le> v \<and> v < bs ! (i + 1))"
    using assms(1) Suc.prems by (auto simp: find_None_iff)
  ultimately show ?case by simp
qed

lemma getClassIndex_inside:
  assumes "2 \<le> length bs" "bs ! 0 \<le> v"
  defines "c \<equiv> getClassIndex (Number (Fin v)) (map Fin bs)"
  shows "0 \<le> c \<and> c \<le> int (length bs) - 2 \<and> bs ! nat c \<le> v
        \<and> (c < int (length bs) - 2 \<longrightarrow> v < bs ! (nat c + 1))"
proof (cases "find (\<lambda>i. bs ! i \<le> v \<and> v < bs ! (i + 1)) [0..<length bs - 1]")
  case None
  have "bs ! (length bs - 2) \<le> v"
    using no_class_above[OF None assms(2), of "length bs - 2"] assms(1) by simp
  with None assms(1) have "c = int (length bs) - 2"
    by (simp add: c_def getClassIndex_Fin)
  with \<open>bs ! (length bs - 2) \<le> v\<close> assms(1) show ?thesis
    by (simp add: nat_diff_distrib')
next
  case (Some i)
  then have "i < length bs - 1" "bs ! i \<le> v" "v < bs ! (i + 1)"
    by (auto simp: find_Some_iff)
  moreover have "c = int i" using Some by (simp add: c_def getClassIndex_Fin)
  ultimately show ?thesis using assms(1) by auto
qed

lemma getClassIndex_NegInf: "getClassIndex (Number NegInf) (map Fin bs) = - 1"
  by (auto simp: getClassIndex_def isNaN_def js_at_def inClass_def find_Some_iff split: option.splits)

lemma getClassIndex_PosInf:
  "2 \<le> length bs \<Longrightarrow> getClassIndex (Number PosInf) (map Fin bs) = int (length bs) - 2"
  by (auto simp: getClassIndex_def isNaN_def js_at_def inClass_def find_Some_iff split: option.splits)

lemma getClassIndex_mono_Fin:
  assumes "sorted bs" "x \<le> y"
  shows "getClassIndex (Number (Fin x)) (map Fin bs) \<le> getClassIndex (Number (Fin y)) (map Fin bs)"
proof (cases "2 \<le> length bs")
  case False
  then show ?thesis by (simp add: getClassIndex_short)
next
  case len: True
  then have ne: "bs \<noteq> []" by auto
  show ?thesis
  proof (cases "x < hd bs")
    case True
    then show ?thesis
      using getClassIndex_below[OF assms(1) ne True] getClassIndex_lower by simp
  next
    case False
    then have lo: "bs ! 0 \<le> x" "bs ! 0 \<le> y"
      using ne assms(2) by (simp_all add: hd_conv_nth)
    define cx where "cx = getClassIndex (Number (Fin x)) (map Fin bs)"
    define cy where "cy = getClassIndex (Number (Fin y)) (map Fin bs)"
    have X: "0 \<le> cx" "cx \<le> int (length bs) - 2" "bs ! nat cx \<le> x"
      using getClassIndex_inside[OF len lo(1)] by (simp_all add: cx_def)
    have Y: "0 \<le> cy" "cy \<le> int (length bs) - 2" "cy < int (length bs) - 2 \<longrightarrow> y < bs ! (nat cy + 1)"
      using getClassIndex_inside[OF len lo(2)] by (simp_all add: cy_def)
    have "cx \<le> cy"
    proof (rule ccontr)
      assume "\<not> cx \<le> cy"
      then have lt: "cy < cx" by simp
      with X(2) Y(3) have "y < bs ! (nat cy + 1)" by simp
      moreover have "bs ! (nat cy + 1) \<le> bs ! nat cx"
        using assms(1) lt X(2) Y(1) len by (intro sorted_nth_mono) auto
      ultimately show False using X(3) assms(2) by simp
    qed
    then show ?thesis by (simp add: cx_def cy_def)
  qed
qed

text \<open>
  Claim C7. \<open>getClassIndex\<close> is monotonic in the value: for breaks that are finite and
  non-decreasing, and numbers \<open>a\<close>, \<open>b\<close> with \<open>b >= a\<close> (so neither is \<open>NaN\<close>), the class
  index of \<open>a\<close> is at most the class index of \<open>b\<close>. The values may be infinite, and the
  statement holds for breaks of any length.
\<close>

theorem getClassIndex_monotonic:
  assumes "sorted bs" "js_ge b a"
  shows "getClassIndex (Number a) (map Fin bs) \<le> getClassIndex (Number b) (map Fin bs)"
proof (cases "2 \<le> length bs")
  case False
  then show ?thesis by (simp add: getClassIndex_short)
next
  case len: True
  show ?thesis
  proof (cases a)
    case NaN
    with assms(2) show ?thesis by (cases b) simp_all
  next
    case NegInf
    then show ?thesis using getClassIndex_lower by (simp add: getClassIndex_NegInf)
  next
    case PosInf
    with assms(2) show ?thesis by (cases b) simp_all
  next
    case (Fin x)
    show ?thesis
    proof (cases b)
      case NaN
      with assms(2) show ?thesis by simp
    next
      case PosInf
      then show ?thesis
        using getClassIndex_upper[of "map Fin bs" "Number a"] len
        by (simp add: getClassIndex_PosInf)
    next
      case NegInf
      with assms(2) Fin show ?thesis by simp
    next
      case (Fin y)
      with assms(2) \<open>a = Fin x\<close> have "x \<le> y" by simp
      then show ?thesis
        using getClassIndex_mono_Fin[OF assms(1)] Fin \<open>a = Fin x\<close> by simp
    qed
  qed
qed

theorem getClassIndex_monotonic_witness:
  "sorted [1, 4, 7, 10 :: real] \<and> js_ge (Fin 8) (Fin 5)
   \<and> getClassIndex (Number (Fin 5)) (map Fin [1, 4, 7, 10]) = 1
   \<and> getClassIndex (Number (Fin 8)) (map Fin [1, 4, 7, 10]) = 2
   \<and> getClassIndex (Number (Fin 5)) (map Fin [1, 4, 7, 10])
        \<le> getClassIndex (Number (Fin 8)) (map Fin [1, 4, 7, 10])"
proof -
  have s: "sorted [1, 4, 7, 10 :: real]" by simp
  have g: "js_ge (Fin 8) (Fin 5)" by simp
  have "getClassIndex (Number (Fin 5)) (map Fin [1, 4, 7, 10]) = 1"
    by code_simp
  moreover have "getClassIndex (Number (Fin 8)) (map Fin [1, 4, 7, 10]) = 2"
    by code_simp
  ultimately show ?thesis using s g getClassIndex_monotonic[OF s g] by simp
qed

text \<open>
  Claim C6. \<open>getClassIndex\<close> is total with the sentinel \<open>-1\<close>: for finite breaks with at
  least two entries, a value between the first and the last break gets an index between
  \<open>0\<close> and \<open>length - 2\<close>; the result is \<open>-1\<close> for \<open>null\<close>, \<open>undefined\<close> and \<open>NaN\<close>, for breaks
  with fewer than two entries, and for a value below the first of non-decreasing breaks.
\<close>

theorem getClassIndex_total:
  "(2 \<le> length bs \<and> hd bs \<le> v \<and> v \<le> last bs \<longrightarrow>
      0 \<le> getClassIndex (Number (Fin v)) (map Fin bs)
      \<and> getClassIndex (Number (Fin v)) (map Fin bs) \<le> int (length bs) - 2)
   \<and> (val = Null \<or> val = Undefined \<or> val = Number NaN \<longrightarrow> getClassIndex val breaks = - 1)
   \<and> (length breaks < 2 \<longrightarrow> getClassIndex val breaks = - 1)
   \<and> (sorted bs \<and> bs \<noteq> [] \<and> v < hd bs \<longrightarrow> getClassIndex (Number (Fin v)) (map Fin bs) = - 1)"
proof (intro conjI impI)
  assume a: "2 \<le> length bs \<and> hd bs \<le> v \<and> v \<le> last bs"
  then have "bs ! 0 \<le> v" by (cases bs) simp_all
  with a getClassIndex_inside[of bs v]
  show "0 \<le> getClassIndex (Number (Fin v)) (map Fin bs)"
    and "getClassIndex (Number (Fin v)) (map Fin bs) \<le> int (length bs) - 2"
    by simp_all
next
  assume "val = Null \<or> val = Undefined \<or> val = Number NaN"
  then show "getClassIndex val breaks = - 1"
    by (auto simp: getClassIndex_def isNaN_def)
next
  assume "length breaks < 2"
  then show "getClassIndex val breaks = - 1" by (rule getClassIndex_short)
next
  assume "sorted bs \<and> bs \<noteq> [] \<and> v < hd bs"
  then show "getClassIndex (Number (Fin v)) (map Fin bs) = - 1"
    by (simp add: getClassIndex_below)
qed

theorem getClassIndex_total_witness:
  "(2 \<le> length [1, 4, 7, 10 :: real] \<and> hd [1, 4, 7, 10 :: real] \<le> 4 \<and> 4 \<le> last [1, 4, 7, 10 :: real])
   \<and> 0 \<le> getClassIndex (Number (Fin 4)) (map Fin [1, 4, 7, 10])
   \<and> getClassIndex (Number (Fin 4)) (map Fin [1, 4, 7, 10]) \<le> int (length [1, 4, 7, 10 :: real]) - 2
   \<and> getClassIndex Null [Fin 1] = - 1
   \<and> (sorted [1, 4, 7, 10 :: real] \<and> [1, 4, 7, 10 :: real] \<noteq> [] \<and> 0 < hd [1, 4, 7, 10 :: real])
   \<and> getClassIndex (Number (Fin 0)) (map Fin [1, 4, 7, 10]) = - 1"
proof -
  have h1: "2 \<le> length [1, 4, 7, 10 :: real] \<and> hd [1, 4, 7, 10 :: real] \<le> 4 \<and> 4 \<le> last [1, 4, 7, 10 :: real]"
    by simp
  have h2: "(Null::jsval) = Null \<or> (Null::jsval) = Undefined \<or> Null = Number NaN" by simp
  have h3: "length [Fin 1] < 2" by simp
  have h4: "sorted [1, 4, 7, 10 :: real] \<and> [1, 4, 7, 10 :: real] \<noteq> [] \<and> 0 < hd [1, 4, 7, 10 :: real]"
    by simp
  note A = getClassIndex_total[of "[1, 4, 7, 10]" 4 Null "[Fin 1]"]
  note B = getClassIndex_total[of "[1, 4, 7, 10]" 0 Null "[Fin 1]"]
  from A h1 have "0 \<le> getClassIndex (Number (Fin 4)) (map Fin [1, 4, 7, 10])
      \<and> getClassIndex (Number (Fin 4)) (map Fin [1, 4, 7, 10]) \<le> int (length [1, 4, 7, 10 :: real]) - 2"
    by blast
  moreover from A h2 h3 have "getClassIndex Null [Fin 1] = - 1" by blast
  moreover from B h4 have "getClassIndex (Number (Fin 0)) (map Fin [1, 4, 7, 10]) = - 1" by blast
  ultimately show ?thesis using h1 h4 by blast
qed

text \<open>
  Claim C8. \<open>getICIOColor\<close> takes the gray fallback exactly when the value is \<open>null\<close> or
  \<open>NaN\<close>, the breaks have fewer than two entries, or the class index is \<open>-1\<close> or not an index
  of the palette; in every other case it returns the palette entry at the class index, which
  is then an index of the palette. In particular \<open>NaN\<close> with the breaks \<open>[1,4,7,10]\<close> gives
  gray for every palette, and so does every value with empty breaks.
\<close>

theorem getICIOColor_cases:
  "getICIOColor val breaks palette =
     (if val = Null \<or> isNaN val \<or> length breaks < 2
         \<or> getClassIndex val breaks = - 1 \<or> getClassIndex val breaks \<ge> int (length palette)
      then gray
      else palette ! nat (getClassIndex val breaks))
   \<and> (\<not> (val = Null \<or> isNaN val \<or> length breaks < 2
           \<or> getClassIndex val breaks = - 1 \<or> getClassIndex val breaks \<ge> int (length palette))
        \<longrightarrow> 0 \<le> getClassIndex val breaks \<and> nat (getClassIndex val breaks) < length palette)
   \<and> getICIOColor (Number NaN) (map Fin [1, 4, 7, 10]) palette = gray
   \<and> getICIOColor val [] palette = gray"
proof -
  have "- 1 \<le> getClassIndex val breaks" by (rule getClassIndex_lower)
  then have "\<not> (getClassIndex val breaks = - 1 \<or> getClassIndex val breaks \<ge> int (length palette))
      \<longrightarrow> 0 \<le> getClassIndex val breaks \<and> nat (getClassIndex val breaks) < length palette"
    by auto
  then show ?thesis by (simp add: getICIOColor_def isNaN_def Let_def)
qed

theorem getICIOColor_cases_witness:
  "getClassIndex (Number (Fin 4)) (map Fin [1, 4, 7, 10]) = 1
   \<and> getICIOColor (Number (Fin 4)) (map Fin [1, 4, 7, 10])
        [(Fin 0, Fin 200, Fin 0), (Fin 204, Fin 200, Fin 0), (Fin 255, Fin 0, Fin 0)]
      = (Fin 204, Fin 200, Fin 0)
   \<and> nat (getClassIndex (Number (Fin 4)) (map Fin [1, 4, 7, 10]))
        < length [(Fin 0, Fin 200, Fin 0), (Fin 204, Fin 200, Fin 0), (Fin 255, Fin 0, Fin 0)]
   \<and> getICIOColor (Number (Fin 0)) (map Fin [1, 4, 7, 10])
        [(Fin 0, Fin 200, Fin 0), (Fin 204, Fin 200, Fin 0), (Fin 255, Fin 0, Fin 0)]
      = gray"
proof -
  have c4: "getClassIndex (Number (Fin 4)) (map Fin [1, 4, 7, 10]) = 1" by code_simp
  have c0: "getClassIndex (Number (Fin 0)) (map Fin [1, 4, 7, 10]) = - 1" by code_simp
  note A = getICIOColor_cases[of "Number (Fin 4)" "map Fin [1, 4, 7, 10]"
      "[(Fin 0, Fin 200, Fin 0), (Fin 204, Fin 200, Fin 0), (Fin 255, Fin 0, Fin 0)]"]
  note B = getICIOColor_cases[of "Number (Fin 0)" "map Fin [1, 4, 7, 10]"
      "[(Fin 0, Fin 200, Fin 0), (Fin 204, Fin 200, Fin 0), (Fin 255, Fin 0, Fin 0)]", THEN conjunct1]
  have h: "\<not> (Number (Fin 4) = Null \<or> isNaN (Number (Fin 4)) \<or> length (map Fin [1, 4, 7, 10]) < 2
      \<or> getClassIndex (Number (Fin 4)) (map Fin [1, 4, 7, 10]) = - 1
      \<or> getClassIndex (Number (Fin 4)) (map Fin [1, 4, 7, 10])
          \<ge> int (length [(Fin 0, Fin 200, Fin 0), (Fin 204, Fin 200, Fin 0), (Fin 255, Fin 0, Fin 0)]))"
    unfolding c4 by (simp add: isNaN_def)
  have "getICIOColor (Number (Fin 4)) (map Fin [1, 4, 7, 10])
        [(Fin 0, Fin 200, Fin 0), (Fin 204, Fin 200, Fin 0), (Fin 255, Fin 0, Fin 0)]
      = (Fin 204, Fin 200, Fin 0)"
    unfolding A[THEN conjunct1] c4 by (simp add: isNaN_def)
  moreover from A[THEN conjunct2, THEN conjunct1] h
  have "nat (getClassIndex (Number (Fin 4)) (map Fin [1, 4, 7, 10]))
        < length [(Fin 0, Fin 200, Fin 0), (Fin 204, Fin 200, Fin 0), (Fin 255, Fin 0, Fin 0)]"
    by blast
  moreover have "getICIOColor (Number (Fin 0)) (map Fin [1, 4, 7, 10])
        [(Fin 0, Fin 200, Fin 0), (Fin 204, Fin 200, Fin 0), (Fin 255, Fin 0, Fin 0)]
      = gray"
    unfolding B c0 by simp
  ultimately show ?thesis using c4 by (intro conjI)
qed

text \<open>
  Claim C4 says that \<open>generateColorPalette(1)\<close> is the single triple \<open>(0, 200, 0)\<close>. In the
  code the ratio for \<open>numClasses = 1\<close> is \<open>0 / (1 - 1)\<close>, which is \<open>NaN\<close>; the comparison
  \<open>ratio < 0.5\<close> is then false, the yellow-to-red branch runs, and the red and green
  channels are \<open>NaN\<close>.
\<close>

theorem generateColorPalette_one: "generateColorPalette 1 = [(NaN, NaN, Fin 0)]"
  by (simp add: generateColorPalette_def paletteColor_def js_sub_def)






lemma cleanData_filter:
  "cleanData (filter (\<lambda>d. \<not> invalidEntry d) raw) = cleanData raw"
proof -
  have "(d \<noteq> Null \<and> d \<noteq> Undefined \<and> \<not> isNaN d) = (\<not> invalidEntry d)" for d
    by (cases d) (auto simp: invalidEntry_def isNaN_def)
  then show ?thesis by (simp add: cleanData_def)
qed

lemma jenksBreaks_cleanData:
  assumes "cleanData a = cleanData b"
  shows "jenksBreaks a k = jenksBreaks b k"
proof (cases "cleanData a = []")
  case True
  then have "cleanData b = []" using assms by simp
  with True show ?thesis by (simp add: jenksBreaks_def)
next
  case False
  then have "a \<noteq> []" "b \<noteq> []" using assms by (auto simp: cleanData_def)
  then show ?thesis by (simp add: jenksBreaks_def assms)
qed

text \<open>
  Claim C10. \<open>jenksBreaks\<close> filters its input itself: its result on a raw list is its result
  on the list without the \<open>null\<close>, \<open>undefined\<close> and \<open>NaN\<close> entries, so two raw lists that
  agree after removing these entries give the same result (also when that result is the
  \<open>TypeError\<close>).
\<close>

theorem jenksBreaks_ignores_invalid:
  "jenksBreaks raw k = jenksBreaks (filter (\<lambda>d. \<not> invalidEntry d) raw) k
   \<and> (filter (\<lambda>d. \<not> invalidEntry d) raw = filter (\<lambda>d. \<not> invalidEntry d) raw'
        \<longrightarrow> jenksBreaks raw k = jenksBreaks raw' k)"
proof (intro conjI impI)
  show "jenksBreaks raw k = jenksBreaks (filter (\<lambda>d. \<not> invalidEntry d) raw) k"
    by (rule jenksBreaks_cleanData) (simp add: cleanData_filter)
next
  assume "filter (\<lambda>d. \<not> invalidEntry d) raw = filter (\<lambda>d. \<not> invalidEntry d) raw'"
  then have "cleanData raw = cleanData raw'"
    by (metis cleanData_filter)
  then show "jenksBreaks raw k = jenksBreaks raw' k" by (rule jenksBreaks_cleanData)
qed

theorem jenksBreaks_ignores_invalid_witness:
  "filter (\<lambda>d. \<not> invalidEntry d) [Null, Number (Fin 3), Number NaN, Number (Fin 1), Number (Fin 2)]
     = filter (\<lambda>d. \<not> invalidEntry d) [Number (Fin 3), Number (Fin 1), Undefined, Number (Fin 2)]
   \<and> jenksBreaks [Null, Number (Fin 3), Number NaN, Number (Fin 1), Number (Fin 2)] 2
     = jenksBreaks [Number (Fin 3), Number (Fin 1), Undefined, Number (Fin 2)] 2
   \<and> jenksBreaks [Number (Fin 3), Number (Fin 1), Undefined, Number (Fin 2)] 2
     = Inr [Number (Fin 1), Number (Fin 2), Number (Fin 3)]"
proof -
  have f: "filter (\<lambda>d. \<not> invalidEntry d) [Null, Number (Fin 3), Number NaN, Number (Fin 1), Number (Fin 2)]
     = filter (\<lambda>d. \<not> invalidEntry d) [Number (Fin 3), Number (Fin 1), Undefined, Number (Fin 2)]"
    by (simp add: invalidEntry_def)
  have e: "jenksBreaks [Number (Fin 3), Number (Fin 1), Undefined, Number (Fin 2)] 2
     = Inr [Number (Fin 1), Number (Fin 2), Number (Fin 3)]"
    by code_simp
  from jenksBreaks_ignores_invalid[of _ 2] f e show ?thesis by blast
qed

text \<open>
  Claim C2. The worked example: the sample \<open>1, ..., 10\<close> with three classes has the breaks
  \<open>[1, 4, 7, 10]\<close>, and with these breaks the value \<open>4\<close> is in class \<open>1\<close>, \<open>10\<close> in class \<open>2\<close>,
  and \<open>0\<close> in no class.
\<close>

theorem scenario_A:
  "jenksBreaks (map (Number \<circ> Fin) [1, 2, 3, 4, 5, 6, 7, 8, 9, 10]) 3
     = Inr (map (Number \<circ> Fin) [1, 4, 7, 10])
   \<and> getClassIndex (Number (Fin 4)) (map Fin [1, 4, 7, 10]) = 1
   \<and> getClassIndex (Number (Fin 10)) (map Fin [1, 4, 7, 10]) = 2
   \<and> getClassIndex (Number (Fin 0)) (map Fin [1, 4, 7, 10]) = - 1"
  by code_simp

section \<open>The variance of a segment of a finite sample\<close>








section \<open>What the loops of the dynamic program write\<close>

lemma length_set2 [simp]: "length (set2 mat r c v) = length mat"
  by (simp add: set2_def)

lemma length_set2_row [simp]: "length (set2 mat r c v ! r') = length (mat ! r')"
  by (cases "r < length mat"; cases "r' = r") (simp_all add: set2_def list_update_beyond)


















section \<open>The recurrence on a finite sample\<close>








section \<open>Sorting, unique values and the removal of duplicates\<close>




lemma setValues_snoc:
  "setValues (xs @ [x]) = (if x \<in> set (setValues xs) then setValues xs else setValues xs @ [x])"
  by (simp add: setValues_def)

lemma setValues_Nil [simp]: "setValues [] = []"
  by (simp add: setValues_def)

lemma set_setValues [simp]: "set (setValues xs) = set xs"
  by (induction xs rule: rev_induct) (auto simp: setValues_snoc)

lemma distinct_setValues [simp]: "distinct (setValues xs)"
  by (induction xs rule: rev_induct) (auto simp: setValues_snoc)











section \<open>The extraction of the breaks\<close>












section \<open>Samples with at most \<open>k\<close> unique values\<close>

lemma segment_from_0: "1 \<le> j \<Longrightarrow> segment ys 0 (j - 1) = take j ys"
  by (simp add: segment_def)











end
